theory Spec2Isabelle
  imports Complex_Main "HOL-Library.Word"
begin

section \<open>The greeting component of \<^verbatim>\<open>src/App.tsx\<close>\<close>

text \<open>
  The component keeps two pieces of state, the input \<^verbatim>\<open>name\<close> and the record
  \<^verbatim>\<open>greeting\<close>, and has one asynchronous operation, \<^verbatim>\<open>generateGreeting\<close>, which
  suspends once, at the \<^verbatim>\<open>await\<close> of the call to the generative-language client.
  The embedding passes the state explicitly, records every effect of the operation
  (state updates, the request handed to the client, the console output) in a trace, and
  takes what the client does, when it is constructed and when it is called, as a
  parameter.
\<close>

subsection \<open>Strings and truthiness\<close>

text \<open>
  A JavaScript string is a sequence of 16-bit code units. \<open>str\<close> writes a literal of
  the source, all of which are ASCII.
\<close>

type_synonym js_string = "16 word list"

definition str :: "string \<Rightarrow> js_string" where
  "str s = map of_char s"

text \<open>
  \<^verbatim>\<open>String.prototype.trim\<close> removes leading and trailing white space and line
  terminators: TAB, LF, VT, FF, CR, SP, NBSP, the other space separators of Unicode,
  LS, PS and the byte order mark. All of them are single code units.
\<close>

definition isWhiteSpace :: "16 word \<Rightarrow> bool" where
  "isWhiteSpace c \<longleftrightarrow>
     List.member
       [0x0009, 0x000A, 0x000B, 0x000C, 0x000D, 0x0020, 0x00A0, 0x1680,
        0x2000, 0x2001, 0x2002, 0x2003, 0x2004, 0x2005, 0x2006, 0x2007,
        0x2008, 0x2009, 0x200A, 0x2028, 0x2029, 0x202F, 0x205F, 0x3000, 0xFEFF] c"

definition trim :: "js_string \<Rightarrow> js_string" where
  "trim s = rev (dropWhile isWhiteSpace (rev (dropWhile isWhiteSpace s)))"

text \<open>A string is truthy when it is not empty; \<^verbatim>\<open>null\<close> and \<^verbatim>\<open>undefined\<close> are falsy.\<close>

definition truthy :: "js_string \<Rightarrow> bool" where
  "truthy s \<longleftrightarrow> s \<noteq> []"

fun truthy_opt :: "js_string option \<Rightarrow> bool" where
  "truthy_opt None = False"
| "truthy_opt (Some s) = truthy s"

text \<open>\<^verbatim>\<open>a || b\<close> on an optional string: \<open>a\<close> when it is truthy, \<open>b\<close> otherwise.\<close>

fun js_or :: "js_string option \<Rightarrow> js_string \<Rightarrow> js_string" where
  "js_or None d = d"
| "js_or (Some s) d = (if truthy s then s else d)"

subsection \<open>The state\<close>

text \<open>\<^verbatim>\<open>interface GreetingData\<close>; \<^verbatim>\<open>error: string | null\<close> is an optional string.\<close>

record GreetingData =
  "text" :: js_string
  isLoading :: bool
  error :: "js_string option"

text \<open>The initial value given to \<^verbatim>\<open>useState\<close>.\<close>

definition initialGreeting :: GreetingData where
  "initialGreeting = \<lparr>text = [], isLoading = False, error = None\<rparr>"

subsection \<open>The client\<close>

text \<open>
  The argument of \<^verbatim>\<open>ai.models.generateContent\<close>. The sampling parameters are the
  decimal literals of the source, kept as the rationals they denote; the component does
  no arithmetic on them.
\<close>

record GenerationConfig =
  temperature :: rat
  topP :: rat

record GenerateContentRequest =
  model :: js_string
  contents :: js_string
  config :: GenerationConfig

text \<open>
  What the client does is not part of the component. There are three ways through the
  \<^verbatim>\<open>try\<close> block:
  \<^item> something is thrown at line 26, by reading \<^verbatim>\<open>process.env.API_KEY\<close> or by
    \<^verbatim>\<open>new GoogleGenAI\<close>, before \<^verbatim>\<open>generateContent\<close> is called;
  \<^item> \<^verbatim>\<open>generateContent\<close> is called and the \<^verbatim>\<open>await\<close> yields a response, whose
    \<^verbatim>\<open>text\<close> may be \<^verbatim>\<open>undefined\<close>;
  \<^item> \<^verbatim>\<open>generateContent\<close> is called and something is thrown by the call, by the
    \<^verbatim>\<open>await\<close> or by reading \<^verbatim>\<open>response.text\<close>.
  Whatever is thrown, the \<^verbatim>\<open>catch\<close> receives it.
\<close>

datatype 'e outcome =
    ThrownBeforeCall 'e
  | Resolved "js_string option"
  | Rejected 'e

subsection \<open>Effects\<close>

datatype 'e event =
    SetGreeting GreetingData
  | GenerateContent GenerateContentRequest
  | ConsoleError js_string 'e

record 'e world =
  greeting :: GreetingData
  trace :: "'e event list"

text \<open>
  \<^verbatim>\<open>setGreeting\<close> with an updater function; \<^verbatim>\<open>setGreeting(v)\<close> is the constant
  updater. Each call is one entry of the trace, holding the state it produces.
\<close>

definition setGreeting :: "(GreetingData \<Rightarrow> GreetingData) \<Rightarrow> 'e world \<Rightarrow> 'e world" where
  "setGreeting f w =
     w\<lparr>greeting := f (greeting w), trace := trace w @ [SetGreeting (f (greeting w))]\<rparr>"

definition generateContent :: "GenerateContentRequest \<Rightarrow> 'e world \<Rightarrow> 'e world" where
  "generateContent req w = w\<lparr>trace := trace w @ [GenerateContent req]\<rparr>"

definition console_error :: "js_string \<Rightarrow> 'e \<Rightarrow> 'e world \<Rightarrow> 'e world" where
  "console_error msg err w = w\<lparr>trace := trace w @ [ConsoleError msg err]\<rparr>"

subsection \<open>\<^verbatim>\<open>generateGreeting\<close>\<close>

text \<open>The updater of line 23: \<^verbatim>\<open>prev => ({ ...prev, isLoading: true, error: null })\<close>.\<close>

definition loadingUpdate :: "GreetingData \<Rightarrow> GreetingData" where
  "loadingUpdate prev = prev\<lparr>isLoading := True, error := None\<rparr>"

text \<open>The template literal of line 29, with \<^verbatim>\<open>${name}\<close> the input as it is typed.\<close>

definition prompt :: "js_string \<Rightarrow> js_string" where
  "prompt name =
     str ''Generate a creative, friendly \"Hello World\" style greeting for a person named ''
     @ name @ str ''. Keep it concise but enthusiastic.''"

definition request :: "js_string \<Rightarrow> GenerateContentRequest" where
  "request name =
     \<lparr>model = str ''gemini-3-flash-preview'',
      contents = prompt name,
      config = \<lparr>temperature = 0.8, topP = 0.9\<rparr>\<rparr>"

text \<open>The values of lines 37 to 41 and of lines 44 to 48.\<close>

definition successValue :: "js_string option \<Rightarrow> GreetingData" where
  "successValue payload =
     (let resultText = js_or payload (str ''Hello World! (Fallback)'')
      in \<lparr>text = resultText, isLoading = False, error = None\<rparr>)"

definition failureValue :: GreetingData where
  "failureValue =
     \<lparr>text = [], isLoading = False,
      error = Some (str ''Failed to generate greeting. Please try again later.'')\<rparr>"

text \<open>
  Lines 21 to 23, before the \<^verbatim>\<open>try\<close>: \<open>None\<close> is the early \<^verbatim>\<open>return\<close> of line 21,
  otherwise the loading update is made.
\<close>

definition generateGreeting_dispatch :: "js_string \<Rightarrow> 'e world \<Rightarrow> 'e world option" where
  "generateGreeting_dispatch name w =
     (if \<not> truthy (trim name) then None
      else Some (setGreeting loadingUpdate w))"

text \<open>
  Lines 26 to 34, the \<^verbatim>\<open>try\<close> block up to the \<^verbatim>\<open>await\<close>: when line 26 throws,
  control goes to the \<^verbatim>\<open>catch\<close> and \<^verbatim>\<open>generateContent\<close> is not called; otherwise
  it is called with the request.
\<close>

fun generateGreeting_call :: "js_string \<Rightarrow> 'e outcome \<Rightarrow> 'e world \<Rightarrow> 'e world" where
  "generateGreeting_call name (ThrownBeforeCall err) w = w"
| "generateGreeting_call name (Resolved payload) w = generateContent (request name) w"
| "generateGreeting_call name (Rejected err) w = generateContent (request name) w"

text \<open>Lines 43 to 48, the \<^verbatim>\<open>catch\<close> block.\<close>

definition generateGreeting_catch :: "'e \<Rightarrow> 'e world \<Rightarrow> 'e world" where
  "generateGreeting_catch err w =
     setGreeting (\<lambda>_. failureValue) (console_error (str ''Gemini Error:'') err w)"

text \<open>
  Lines 36 to 49, what follows: the rest of the \<^verbatim>\<open>try\<close> block after the \<^verbatim>\<open>await\<close>,
  or the \<^verbatim>\<open>catch\<close>.
\<close>

fun generateGreeting_resume :: "'e outcome \<Rightarrow> 'e world \<Rightarrow> 'e world" where
  "generateGreeting_resume (ThrownBeforeCall err) w = generateGreeting_catch err w"
| "generateGreeting_resume (Resolved payload) w =
     setGreeting (\<lambda>_. successValue payload) w"
| "generateGreeting_resume (Rejected err) w = generateGreeting_catch err w"

text \<open>A whole call, when nothing else touches the state while it is suspended.\<close>

definition generateGreeting :: "js_string \<Rightarrow> 'e outcome \<Rightarrow> 'e world \<Rightarrow> 'e world" where
  "generateGreeting name out w =
     (case generateGreeting_dispatch name w of
        None \<Rightarrow> w
      | Some w' \<Rightarrow> generateGreeting_resume out (generateGreeting_call name out w'))"

subsection \<open>The view\<close>

text \<open>The \<^verbatim>\<open>disabled\<close> attribute of the button, line 89.\<close>

definition button_disabled :: "GreetingData \<Rightarrow> js_string \<Rightarrow> bool" where
  "button_disabled g name \<longleftrightarrow> isLoading g \<or> \<not> truthy (trim name)"

text \<open>
  The result area, lines 105 to 117: the red paragraph holding the error, the
  paragraph holding the text between quotation marks, or the grey placeholder.
\<close>

datatype result_area =
    ErrorMessage js_string
  | QuotedGreeting js_string
  | Placeholder js_string

definition result_area :: "GreetingData \<Rightarrow> result_area" where
  "result_area g =
     (if truthy_opt (error g) then ErrorMessage (case error g of Some e \<Rightarrow> e | None \<Rightarrow> [])
      else if truthy (text g) then QuotedGreeting (text g)
      else Placeholder (str ''Enter a name to generate a custom greeting...''))"

subsection \<open>Reachable states\<close>

text \<open>
  The values \<^verbatim>\<open>greeting\<close> can take: the initial one, and what the three calls of
  \<^verbatim>\<open>setGreeting\<close> make of a value already reached, in any order, so that calls of
  \<^verbatim>\<open>generateGreeting\<close> that overlap are covered too.
\<close>

inductive reachable :: "GreetingData \<Rightarrow> bool" where
  init: "reachable initialGreeting"
| dispatch: "reachable g \<Longrightarrow> reachable (loadingUpdate g)"
| success: "reachable g \<Longrightarrow> reachable (successValue payload)"
| failure: "reachable g \<Longrightarrow> reachable failureValue"

section \<open>Properties\<close>

subsection \<open>Trimming\<close>

lemma trim_empty_iff: "trim s = [] \<longleftrightarrow> (\<forall>c\<in>set s. isWhiteSpace c)"
proof
  assume "trim s = []"
  then have "dropWhile isWhiteSpace (rev (dropWhile isWhiteSpace s)) = []"
    by (simp add: trim_def)
  then have *: "\<forall>c\<in>set (dropWhile isWhiteSpace s). isWhiteSpace c"
    by simp
  show "\<forall>c\<in>set s. isWhiteSpace c"
  proof (cases "dropWhile isWhiteSpace s")
    case Nil
    then show ?thesis by simp
  next
    case (Cons c cs)
    then have "\<not> isWhiteSpace c"
      using hd_dropWhile [of isWhiteSpace s] by simp
    with * Cons show ?thesis by simp
  qed
next
  assume "\<forall>c\<in>set s. isWhiteSpace c"
  then have "dropWhile isWhiteSpace s = []"
    by simp
  then show "trim s = []"
    unfolding trim_def by (simp del: dropWhile_eq_Nil_conv)
qed

lemma dispatch_blank:
  "trim name = [] \<Longrightarrow> generateGreeting_dispatch name w = None"
  by (simp add: generateGreeting_dispatch_def truthy_def)

lemma dispatch_nonblank:
  "trim name \<noteq> [] \<Longrightarrow>
   generateGreeting_dispatch name w = Some (setGreeting loadingUpdate w)"
  by (simp add: generateGreeting_dispatch_def truthy_def)

lemma greeting_setGreeting: "greeting (setGreeting f w) = f (greeting w)"
  by (simp add: setGreeting_def)

lemma trace_setGreeting: "trace (setGreeting f w) = trace w @ [SetGreeting (f (greeting w))]"
  by (simp add: setGreeting_def)

lemma greeting_generateContent: "greeting (generateContent req w) = greeting w"
  by (simp add: generateContent_def)

lemma trace_generateContent: "trace (generateContent req w) = trace w @ [GenerateContent req]"
  by (simp add: generateContent_def)

lemma greeting_console_error: "greeting (console_error msg err w) = greeting w"
  by (simp add: console_error_def)

lemma trace_console_error: "trace (console_error msg err w) = trace w @ [ConsoleError msg err]"
  by (simp add: console_error_def)

lemmas effect_simps =
  greeting_setGreeting trace_setGreeting greeting_generateContent trace_generateContent
  greeting_console_error trace_console_error

lemma greeting_call: "greeting (generateGreeting_call name out w) = greeting w"
  by (cases out) (simp_all add: effect_simps)

lemma trace_call:
  "trace (generateGreeting_call name out w) =
     trace w @ (case out of ThrownBeforeCall err \<Rightarrow> [] | _ \<Rightarrow> [GenerateContent (request name)])"
  by (cases out) (simp_all add: effect_simps)

lemma greeting_catch: "greeting (generateGreeting_catch err w) = failureValue"
  by (simp add: generateGreeting_catch_def effect_simps)

lemma trace_catch:
  "trace (generateGreeting_catch err w) =
     trace w @ [ConsoleError (str ''Gemini Error:'') err, SetGreeting failureValue]"
  by (simp add: generateGreeting_catch_def effect_simps)

lemma greeting_resume:
  "greeting (generateGreeting_resume out w) =
     (case out of
        ThrownBeforeCall err \<Rightarrow> failureValue
      | Resolved payload \<Rightarrow> successValue payload
      | Rejected err \<Rightarrow> failureValue)"
  by (cases out) (simp_all add: effect_simps greeting_catch)

lemma trace_resume:
  "trace (generateGreeting_resume out w) =
     trace w @
     (case out of
        ThrownBeforeCall err \<Rightarrow>
          [ConsoleError (str ''Gemini Error:'') err, SetGreeting failureValue]
      | Resolved payload \<Rightarrow> [SetGreeting (successValue payload)]
      | Rejected err \<Rightarrow>
          [ConsoleError (str ''Gemini Error:'') err, SetGreeting failureValue])"
  by (cases out) (simp_all add: effect_simps trace_catch)

lemma generateGreeting_nonblank:
  "trim name \<noteq> [] \<Longrightarrow>
   generateGreeting name out w =
     generateGreeting_resume out (generateGreeting_call name out (setGreeting loadingUpdate w))"
  by (simp add: generateGreeting_def dispatch_nonblank)

lemma greeting_generateGreeting_nonblank:
  "trim name \<noteq> [] \<Longrightarrow>
   greeting (generateGreeting name out w) =
     (case out of
        ThrownBeforeCall err \<Rightarrow> failureValue
      | Resolved payload \<Rightarrow> successValue payload
      | Rejected err \<Rightarrow> failureValue)"
  by (simp add: generateGreeting_nonblank greeting_resume)

lemma trace_generateGreeting_nonblank:
  "trim name \<noteq> [] \<Longrightarrow>
   trace (generateGreeting name out w) =
     trace w @ [SetGreeting (loadingUpdate (greeting w))]
     @ (case out of ThrownBeforeCall err \<Rightarrow> [] | _ \<Rightarrow> [GenerateContent (request name)])
     @ (case out of
          ThrownBeforeCall err \<Rightarrow>
            [ConsoleError (str ''Gemini Error:'') err, SetGreeting failureValue]
        | Resolved payload \<Rightarrow> [SetGreeting (successValue payload)]
        | Rejected err \<Rightarrow>
            [ConsoleError (str ''Gemini Error:'') err, SetGreeting failureValue])"
  by (simp add: generateGreeting_nonblank trace_resume trace_call effect_simps)

lemma generateGreeting_blank: "trim name = [] \<Longrightarrow> generateGreeting name out w = w"
  by (simp add: generateGreeting_def dispatch_blank)

lemma js_or_cases:
  "js_or payload d = (case payload of None \<Rightarrow> d | Some t \<Rightarrow> if t = [] then d else t)"
  by (cases payload) (simp_all add: truthy_def)

subsection \<open>Reachable states\<close>

lemma reachable_error:
  "reachable g \<Longrightarrow>
   error g = None \<or> error g = Some (str ''Failed to generate greeting. Please try again later.'')"
  by (induction rule: reachable.induct)
    (simp_all add: initialGreeting_def loadingUpdate_def successValue_def failureValue_def)

lemma reachable_loading_no_error: "reachable g \<Longrightarrow> isLoading g \<Longrightarrow> error g = None"
  by (induction rule: reachable.induct)
    (simp_all add: initialGreeting_def loadingUpdate_def successValue_def failureValue_def)

lemma reachable_dispatch:
  "reachable (greeting w) \<Longrightarrow> generateGreeting_dispatch name w = Some w' \<Longrightarrow>
   reachable (greeting w')"
  by (auto simp: generateGreeting_dispatch_def effect_simps intro: reachable.dispatch
      split: if_splits)

lemma reachable_call:
  "reachable (greeting w) \<Longrightarrow> reachable (greeting (generateGreeting_call name out w))"
  by (simp add: greeting_call)

lemma reachable_resume:
  "reachable (greeting w) \<Longrightarrow> reachable (greeting (generateGreeting_resume out w))"
  by (cases out)
    (auto simp: effect_simps greeting_catch intro: reachable.success reachable.failure)

lemma reachable_generateGreeting:
  "reachable (greeting w) \<Longrightarrow> reachable (greeting (generateGreeting name out w))"
  by (auto simp: generateGreeting_def
      intro: reachable_resume reachable_call reachable_dispatch split: option.splits)

text \<open>
  The result area at any value of the record: the test of line 106 is for truthiness,
  so an error is shown when it is neither \<^verbatim>\<open>null\<close> nor the empty string.
\<close>

lemma result_area_truthy:
  "result_area g =
     (if error g \<noteq> None \<and> error g \<noteq> Some []
        then ErrorMessage (case error g of Some e \<Rightarrow> e | None \<Rightarrow> [])
      else if text g \<noteq> [] then QuotedGreeting (text g)
      else Placeholder (str ''Enter a name to generate a custom greeting...''))"
  by (cases "error g") (simp_all add: result_area_def truthy_def)

subsection \<open>Blank input\<close>

text \<open>
  C3. When the input is empty or consists of white space only, a call of
  \<^verbatim>\<open>generateGreeting\<close> returns at line 21 and changes nothing: the state is the one
  before the call and the trace has no new entry, so no field was set and no request was
  made.
\<close>

theorem blank_input_noop:
  assumes "\<forall>c\<in>set name. isWhiteSpace c"
  shows "generateGreeting_dispatch name w = None \<and> generateGreeting name out w = w"
proof -
  from assms have "trim name = []"
    by (simp add: trim_empty_iff)
  then show ?thesis
    by (simp add: dispatch_blank generateGreeting_blank)
qed

theorem blank_input_noop_witness:
  "generateGreeting [0x20, 0x09, 0x3000] (Resolved (Some (str ''Hi'')))
     \<lparr>greeting = \<lparr>text = str ''Hey'', isLoading = False, error = None\<rparr>,
      trace = ([] :: unit event list)\<rparr>
   = \<lparr>greeting = \<lparr>text = str ''Hey'', isLoading = False, error = None\<rparr>, trace = []\<rparr>"
proof -
  have blank: "\<forall>c\<in>set [0x20, 0x09, 0x3000]. isWhiteSpace c"
    by (simp add: isWhiteSpace_def)
  show ?thesis
    by (rule blank_input_noop [OF blank, THEN conjunct2])
qed

subsection \<open>Dispatch\<close>

text \<open>
  C4. When the input is not empty after trimming, the call gets past line 21 and its
  first effect is the update of line 23: \<^verbatim>\<open>isLoading\<close> becomes true, \<^verbatim>\<open>error\<close> becomes
  \<^verbatim>\<open>null\<close>, and \<^verbatim>\<open>text\<close>, the only other field, keeps its value. That update is the
  one new entry of the trace when the \<^verbatim>\<open>try\<close> block is entered, and so the first new
  entry of the trace of the whole call, whatever the client does afterwards.
\<close>

theorem dispatch_sets_loading:
  assumes "trim name \<noteq> []"
  shows "(\<exists>w'. generateGreeting_dispatch name w = Some w'
            \<and> greeting w' = \<lparr>text = text (greeting w), isLoading = True, error = None\<rparr>
            \<and> trace w' = trace w
                 @ [SetGreeting \<lparr>text = text (greeting w), isLoading = True, error = None\<rparr>])
         \<and> (\<exists>rest. trace (generateGreeting name out w) = trace w
                 @ SetGreeting \<lparr>text = text (greeting w), isLoading = True, error = None\<rparr>
                 # rest)"
proof -
  have l: "loadingUpdate (greeting w)
      = \<lparr>text = text (greeting w), isLoading = True, error = None\<rparr>"
    by (simp add: loadingUpdate_def)
  from assms have "generateGreeting_dispatch name w = Some (setGreeting loadingUpdate w)"
    by (rule dispatch_nonblank)
  then have first: "\<exists>w'. generateGreeting_dispatch name w = Some w'
            \<and> greeting w' = \<lparr>text = text (greeting w), isLoading = True, error = None\<rparr>
            \<and> trace w' = trace w
                 @ [SetGreeting \<lparr>text = text (greeting w), isLoading = True, error = None\<rparr>]"
    by (simp add: effect_simps l)
  from assms have "\<exists>rest. trace (generateGreeting name out w) = trace w
                 @ SetGreeting (loadingUpdate (greeting w)) # rest"
    by (simp add: trace_generateGreeting_nonblank)
  with first show ?thesis
    by (simp add: l)
qed

theorem dispatch_sets_loading_witness:
  "trim (str ''Ada'') \<noteq> []
   \<and> generateGreeting_dispatch (str ''Ada'')
       \<lparr>greeting = \<lparr>text = str ''Hey'', isLoading = False, error = Some (str ''x'')\<rparr>,
        trace = ([] :: unit event list)\<rparr>
     = Some \<lparr>greeting = \<lparr>text = str ''Hey'', isLoading = True, error = None\<rparr>,
             trace = [SetGreeting \<lparr>text = str ''Hey'', isLoading = True, error = None\<rparr>]\<rparr>
   \<and> hd (trace (generateGreeting (str ''Ada'') (ThrownBeforeCall ())
       \<lparr>greeting = \<lparr>text = str ''Hey'', isLoading = False, error = Some (str ''x'')\<rparr>,
        trace = []\<rparr>))
     = SetGreeting \<lparr>text = str ''Hey'', isLoading = True, error = None\<rparr>"
proof -
  have nonblank: "trim (str ''Ada'') \<noteq> []"
    by (simp add: trim_def str_def isWhiteSpace_def)
  from dispatch_sets_loading [OF nonblank, of
      "\<lparr>greeting = \<lparr>text = str ''Hey'', isLoading = False, error = Some (str ''x'')\<rparr>,
        trace = ([] :: unit event list)\<rparr>" "ThrownBeforeCall ()"]
    nonblank
  show ?thesis
    by auto
qed

text \<open>
  C5, as the code has it. A call that gets past line 21, and in which nothing is thrown
  at line 26, hands the client exactly one request: the model
  \<^verbatim>\<open>gemini-3-flash-preview\<close>, the sampling parameters 0.8 and 0.9, and the instruction
  template filled with the input as it was typed. The input is trimmed for the test of
  line 21 only. When line 26 throws, no request is made.
\<close>

theorem dispatch_request:
  assumes "trim name \<noteq> []"
  shows "filter (\<lambda>e. case e of GenerateContent _ \<Rightarrow> True | _ \<Rightarrow> False)
           (drop (length (trace w)) (trace (generateGreeting name out w)))
         = (case out of
              ThrownBeforeCall err \<Rightarrow> []
            | _ \<Rightarrow>
              [GenerateContent
                 \<lparr>model = str ''gemini-3-flash-preview'',
                  contents =
                    str ''Generate a creative, friendly \"Hello World\" style greeting for a person named ''
                    @ name @ str ''. Keep it concise but enthusiastic.'',
                  config = \<lparr>temperature = 0.8, topP = 0.9\<rparr>\<rparr>])"
  using assms
  by (cases out) (simp_all add: trace_generateGreeting_nonblank request_def prompt_def)

theorem dispatch_request_witness:
  "trim (str '' Bob'') \<noteq> []
   \<and> filter (\<lambda>e. case e of GenerateContent _ \<Rightarrow> True | _ \<Rightarrow> False)
       (trace (generateGreeting (str '' Bob'') (Resolved None)
         \<lparr>greeting = initialGreeting, trace = ([] :: unit event list)\<rparr>))
     = [GenerateContent
         \<lparr>model = str ''gemini-3-flash-preview'',
          contents =
            str ''Generate a creative, friendly \"Hello World\" style greeting for a person named  Bob. Keep it concise but enthusiastic.'',
          config = \<lparr>temperature = 0.8, topP = 0.9\<rparr>\<rparr>]
   \<and> filter (\<lambda>e. case e of GenerateContent _ \<Rightarrow> True | _ \<Rightarrow> False)
       (trace (generateGreeting (str '' Bob'') (ThrownBeforeCall ())
         \<lparr>greeting = initialGreeting, trace = ([] :: unit event list)\<rparr>))
     = []"
proof -
  have nonblank: "trim (str '' Bob'') \<noteq> []"
    by (simp add: trim_def str_def isWhiteSpace_def)
  from nonblank
    dispatch_request [OF nonblank, of
      "\<lparr>greeting = initialGreeting, trace = ([] :: unit event list)\<rparr>" "Resolved None"]
    dispatch_request [OF nonblank, of
      "\<lparr>greeting = initialGreeting, trace = ([] :: unit event list)\<rparr>" "ThrownBeforeCall ()"]
  show ?thesis
    by (simp add: str_def)
qed

text \<open>
  The claim as it is written fails twice. The prompt is not built from the trimmed
  input: for the input \<^verbatim>\<open>" Bob"\<close> the request that is made holds the leading space,
  and so differs from the template filled with \<^verbatim>\<open>"Bob"\<close>. And a submission that passes
  the test of line 21 does not always reach the client: when line 26 throws, the trace
  of the call holds the loading update, the console entry and the failure update, and
  no request.
\<close>

theorem prompt_not_trimmed:
  "trace (generateGreeting (str '' Bob'') (Resolved None)
     \<lparr>greeting = initialGreeting, trace = ([] :: unit event list)\<rparr>)
   = [SetGreeting \<lparr>text = [], isLoading = True, error = None\<rparr>,
      GenerateContent
        \<lparr>model = str ''gemini-3-flash-preview'',
         contents =
           str ''Generate a creative, friendly \"Hello World\" style greeting for a person named  Bob. Keep it concise but enthusiastic.'',
         config = \<lparr>temperature = 0.8, topP = 0.9\<rparr>\<rparr>,
      SetGreeting \<lparr>text = str ''Hello World! (Fallback)'', isLoading = False, error = None\<rparr>]
   \<and> trim (str '' Bob'') = str ''Bob''
   \<and> str ''Generate a creative, friendly \"Hello World\" style greeting for a person named  Bob. Keep it concise but enthusiastic.''
     \<noteq> str ''Generate a creative, friendly \"Hello World\" style greeting for a person named ''
       @ trim (str '' Bob'') @ str ''. Keep it concise but enthusiastic.''
   \<and> trace (generateGreeting (str '' Bob'') (ThrownBeforeCall ())
       \<lparr>greeting = initialGreeting, trace = ([] :: unit event list)\<rparr>)
     = [SetGreeting \<lparr>text = [], isLoading = True, error = None\<rparr>,
        ConsoleError (str ''Gemini Error:'') (),
        SetGreeting
          \<lparr>text = [], isLoading = False,
           error = Some (str ''Failed to generate greeting. Please try again later.'')\<rparr>]"
proof -
  have t: "trim (str '' Bob'') = str ''Bob''"
    by (simp add: trim_def str_def isWhiteSpace_def)
  have nonblank: "trim (str '' Bob'') \<noteq> []"
    unfolding t by (simp add: str_def)
  have req: "request (str '' Bob'')
        = \<lparr>model = str ''gemini-3-flash-preview'',
           contents =
             str ''Generate a creative, friendly \"Hello World\" style greeting for a person named  Bob. Keep it concise but enthusiastic.'',
           config = \<lparr>temperature = 0.8, topP = 0.9\<rparr>\<rparr>"
    by (simp add: request_def prompt_def str_def)
  have resolved: "trace (generateGreeting (str '' Bob'') (Resolved None)
     \<lparr>greeting = initialGreeting, trace = ([] :: unit event list)\<rparr>)
   = [SetGreeting \<lparr>text = [], isLoading = True, error = None\<rparr>,
      GenerateContent (request (str '' Bob'')),
      SetGreeting \<lparr>text = str ''Hello World! (Fallback)'', isLoading = False, error = None\<rparr>]"
    by (simp add: trace_generateGreeting_nonblank [OF nonblank] loadingUpdate_def
        initialGreeting_def successValue_def)
  have thrown: "trace (generateGreeting (str '' Bob'') (ThrownBeforeCall ())
       \<lparr>greeting = initialGreeting, trace = ([] :: unit event list)\<rparr>)
     = [SetGreeting \<lparr>text = [], isLoading = True, error = None\<rparr>,
        ConsoleError (str ''Gemini Error:'') (),
        SetGreeting
          \<lparr>text = [], isLoading = False,
           error = Some (str ''Failed to generate greeting. Please try again later.'')\<rparr>]"
    by (simp add: trace_generateGreeting_nonblank [OF nonblank] loadingUpdate_def
        initialGreeting_def failureValue_def)
  have differ: "str ''Generate a creative, friendly \"Hello World\" style greeting for a person named  Bob. Keep it concise but enthusiastic.''
     \<noteq> str ''Generate a creative, friendly \"Hello World\" style greeting for a person named ''
       @ trim (str '' Bob'') @ str ''. Keep it concise but enthusiastic.''"
    unfolding t by (simp add: str_def)
  from resolved [unfolded req] t differ thrown show ?thesis
    by (intro conjI)
qed

subsection \<open>Resolution\<close>

text \<open>
  C1. When the awaited call yields a response, the continuation makes exactly one
  update, the \<^verbatim>\<open>setGreeting\<close> of line 37, and the state it leaves has \<^verbatim>\<open>text\<close> the
  payload, or \<^verbatim>\<open>"Hello World! (Fallback)"\<close> when the payload is \<^verbatim>\<open>undefined\<close> or
  empty, \<^verbatim>\<open>isLoading\<close> false and \<^verbatim>\<open>error\<close> \<^verbatim>\<open>null\<close>. For an input that is not blank
  this is the final state of the whole call.
\<close>

theorem success_final_state:
  fixes w :: "'e world"
  defines "final payload \<equiv>
    \<lparr>text = (case payload of None \<Rightarrow> str ''Hello World! (Fallback)''
                | Some t \<Rightarrow> if t = [] then str ''Hello World! (Fallback)'' else t),
     isLoading = False, error = None\<rparr>"
  shows "generateGreeting_resume (Resolved payload) w
           = \<lparr>greeting = final payload, trace = trace w @ [SetGreeting (final payload)]\<rparr>
         \<and> (trim name \<noteq> [] \<longrightarrow>
              greeting (generateGreeting name (Resolved payload) w) = final payload)"
proof -
  have sv: "successValue payload = final payload"
    by (simp add: successValue_def final_def js_or_cases)
  have "generateGreeting_resume (Resolved payload) w
          = \<lparr>greeting = final payload, trace = trace w @ [SetGreeting (final payload)]\<rparr>"
    by (simp add: setGreeting_def sv)
  moreover have "greeting (generateGreeting name (Resolved payload) w) = final payload"
    if "trim name \<noteq> []"
    using that by (simp add: greeting_generateGreeting_nonblank sv)
  ultimately show ?thesis
    by simp
qed

theorem success_final_state_witness:
  "trim (str ''Alice'') \<noteq> []
   \<and> greeting (generateGreeting (str ''Alice'') (Resolved (Some (str ''Hi Alice!'')))
       \<lparr>greeting = initialGreeting, trace = ([] :: unit event list)\<rparr>)
     = \<lparr>text = str ''Hi Alice!'', isLoading = False, error = None\<rparr>
   \<and> greeting (generateGreeting (str ''Alice'') (Resolved (Some []))
       \<lparr>greeting = initialGreeting, trace = ([] :: unit event list)\<rparr>)
     = \<lparr>text = str ''Hello World! (Fallback)'', isLoading = False, error = None\<rparr>"
proof -
  have nonblank: "trim (str ''Alice'') \<noteq> []"
    by (simp add: trim_def str_def isWhiteSpace_def)
  have hi: "str ''Hi Alice!'' \<noteq> []"
    by (simp add: str_def)
  from nonblank hi
    success_final_state [of "Some (str ''Hi Alice!'')"
      "\<lparr>greeting = initialGreeting, trace = ([] :: unit event list)\<rparr>" "str ''Alice''"]
    success_final_state [of "Some []"
      "\<lparr>greeting = initialGreeting, trace = ([] :: unit event list)\<rparr>" "str ''Alice''"]
  show ?thesis
    by simp
qed

text \<open>
  C2. When something is thrown inside the \<^verbatim>\<open>try\<close> block, whatever it is and
  whether before or after the client is called, the \<^verbatim>\<open>catch\<close> writes it to the
  console and then makes one update, after which the state is \<^verbatim>\<open>text\<close> empty,
  \<^verbatim>\<open>isLoading\<close> false and \<^verbatim>\<open>error\<close> the fixed message. What was thrown is in the
  console entry only: the state and the result area are the same for every thrown
  value. For an input that is not blank this is the final state of the whole call.
\<close>

theorem failure_final_state:
  fixes w :: "'e world"
  defines "failed \<equiv>
    \<lparr>text = [], isLoading = False,
     error = Some (str ''Failed to generate greeting. Please try again later.'')\<rparr>"
  shows "generateGreeting_resume (Rejected err) w
           = \<lparr>greeting = failed,
              trace = trace w @ [ConsoleError (str ''Gemini Error:'') err, SetGreeting failed]\<rparr>
         \<and> result_area (greeting (generateGreeting_resume (Rejected err) w))
           = ErrorMessage (str ''Failed to generate greeting. Please try again later.'')
         \<and> (trim name \<noteq> [] \<longrightarrow>
              greeting (generateGreeting name (Rejected err) w) = failed)
         \<and> generateGreeting_resume (ThrownBeforeCall err) w
           = \<lparr>greeting = failed,
              trace = trace w @ [ConsoleError (str ''Gemini Error:'') err, SetGreeting failed]\<rparr>
         \<and> (trim name \<noteq> [] \<longrightarrow>
              greeting (generateGreeting name (ThrownBeforeCall err) w) = failed)"
proof -
  have sv: "failureValue = failed"
    by (simp add: failureValue_def failed_def)
  have catch: "generateGreeting_catch err w
          = \<lparr>greeting = failed,
             trace = trace w @ [ConsoleError (str ''Gemini Error:'') err, SetGreeting failed]\<rparr>"
    by (simp add: generateGreeting_catch_def setGreeting_def console_error_def sv)
  have rejected: "generateGreeting_resume (Rejected err) w
          = \<lparr>greeting = failed,
             trace = trace w @ [ConsoleError (str ''Gemini Error:'') err, SetGreeting failed]\<rparr>"
    by (simp add: catch)
  have thrown: "generateGreeting_resume (ThrownBeforeCall err) w
          = \<lparr>greeting = failed,
             trace = trace w @ [ConsoleError (str ''Gemini Error:'') err, SetGreeting failed]\<rparr>"
    by (simp add: catch)
  have area: "result_area (greeting (generateGreeting_resume (Rejected err) w))
          = ErrorMessage (str ''Failed to generate greeting. Please try again later.'')"
    unfolding rejected by (simp add: result_area_def failed_def truthy_def str_def)
  have whole: "greeting (generateGreeting name (Rejected err) w) = failed"
    if "trim name \<noteq> []"
    using that by (simp add: greeting_generateGreeting_nonblank sv)
  have whole': "greeting (generateGreeting name (ThrownBeforeCall err) w) = failed"
    if "trim name \<noteq> []"
    using that by (simp add: greeting_generateGreeting_nonblank sv)
  from rejected area whole thrown whole' show ?thesis
    by blast
qed

theorem failure_final_state_witness:
  "trim (str ''Alice'') \<noteq> []
   \<and> generateGreeting (str ''Alice'') (Rejected (str ''401''))
       \<lparr>greeting = \<lparr>text = str ''Hey'', isLoading = False, error = None\<rparr>, trace = []\<rparr>
     = \<lparr>greeting =
          \<lparr>text = [], isLoading = False,
           error = Some (str ''Failed to generate greeting. Please try again later.'')\<rparr>,
        trace =
          [SetGreeting \<lparr>text = str ''Hey'', isLoading = True, error = None\<rparr>,
           GenerateContent (request (str ''Alice'')),
           ConsoleError (str ''Gemini Error:'') (str ''401''),
           SetGreeting
             \<lparr>text = [], isLoading = False,
              error = Some (str ''Failed to generate greeting. Please try again later.'')\<rparr>]\<rparr>"
proof -
  have nonblank: "trim (str ''Alice'') \<noteq> []"
    by (simp add: trim_def str_def isWhiteSpace_def)
  from nonblank failure_final_state [of "str ''401''"
    "\<lparr>greeting = \<lparr>text = str ''Hey'', isLoading = False, error = None\<rparr>, trace = []\<rparr>"
    "str ''Alice''"]
  show ?thesis
    by (simp add: generateGreeting_def dispatch_nonblank setGreeting_def
        generateContent_def console_error_def loadingUpdate_def failureValue_def
        generateGreeting_catch_def)
qed

text \<open>
  C10. The fallback replaces the payload exactly when the payload is \<^verbatim>\<open>undefined\<close> or
  the empty string; any other payload is stored as it is. In particular a payload that
  is not empty and consists of white space only is stored unchanged, and the result area
  then shows it as a quoted greeting, not the placeholder.
\<close>

theorem fallback_only_when_absent_or_empty:
  "text (greeting (generateGreeting_resume (Resolved payload) w))
     = (if payload = None \<or> payload = Some [] then str ''Hello World! (Fallback)''
        else case payload of Some t \<Rightarrow> t | None \<Rightarrow> [])
   \<and> (\<forall>t. t \<noteq> [] \<and> (\<forall>c\<in>set t. isWhiteSpace c) \<longrightarrow>
          text (greeting (generateGreeting_resume (Resolved (Some t)) w)) = t
          \<and> result_area (greeting (generateGreeting_resume (Resolved (Some t)) w))
            = QuotedGreeting t)"
proof -
  have "text (greeting (generateGreeting_resume (Resolved payload) w))
     = (if payload = None \<or> payload = Some [] then str ''Hello World! (Fallback)''
        else case payload of Some t \<Rightarrow> t | None \<Rightarrow> [])"
    by (cases payload) (simp_all add: effect_simps successValue_def truthy_def)
  moreover have "text (greeting (generateGreeting_resume (Resolved (Some t)) w)) = t
      \<and> result_area (greeting (generateGreeting_resume (Resolved (Some t)) w))
        = QuotedGreeting t" if "t \<noteq> []" for t
    using that
    by (simp add: effect_simps successValue_def result_area_def truthy_def)
  ultimately show ?thesis
    by blast
qed

theorem fallback_only_when_absent_or_empty_witness:
  "text (greeting (generateGreeting_resume (Resolved (Some [0x20, 0x20]))
       \<lparr>greeting = initialGreeting, trace = ([] :: unit event list)\<rparr>)) = [0x20, 0x20]
   \<and> result_area (greeting (generateGreeting_resume (Resolved (Some [0x20, 0x20]))
       \<lparr>greeting = initialGreeting, trace = ([] :: unit event list)\<rparr>))
     = QuotedGreeting [0x20, 0x20]"
proof -
  have ws: "[0x20, 0x20] \<noteq> [] \<and> (\<forall>c\<in>set [0x20, 0x20]. isWhiteSpace c)"
    by (simp add: isWhiteSpace_def)
  from fallback_only_when_absent_or_empty
    [of None "\<lparr>greeting = initialGreeting, trace = ([] :: unit event list)\<rparr>"]
  have "\<forall>t. t \<noteq> [] \<and> (\<forall>c\<in>set t. isWhiteSpace c) \<longrightarrow>
          text (greeting (generateGreeting_resume (Resolved (Some t))
            \<lparr>greeting = initialGreeting, trace = ([] :: unit event list)\<rparr>)) = t
          \<and> result_area (greeting (generateGreeting_resume (Resolved (Some t))
            \<lparr>greeting = initialGreeting, trace = ([] :: unit event list)\<rparr>))
            = QuotedGreeting t"
    by (rule conjunct2)
  with ws show ?thesis
    by blast
qed

subsection \<open>The result area and the button\<close>

text \<open>
  C6. The result area is a function of \<^verbatim>\<open>greeting\<close> alone. In every state the
  component can be in it shows one of three things, tested in this order: the error
  message when \<^verbatim>\<open>error\<close> is not \<^verbatim>\<open>null\<close>; else the quoted text when \<^verbatim>\<open>text\<close> is
  not empty; else the placeholder. The three are different elements, so exactly one is
  shown.
\<close>

theorem result_area_cases:
  assumes "reachable g"
  shows "result_area g =
     (if error g \<noteq> None
        then ErrorMessage (case error g of Some e \<Rightarrow> e | None \<Rightarrow> [])
      else if text g \<noteq> [] then QuotedGreeting (text g)
      else Placeholder (str ''Enter a name to generate a custom greeting...''))"
proof (cases "error g = None")
  case True
  then show ?thesis
    by (simp add: result_area_truthy)
next
  case False
  with reachable_error [OF assms]
  have "error g = Some (str ''Failed to generate greeting. Please try again later.'')"
    by auto
  then show ?thesis
    by (simp add: result_area_truthy str_def)
qed

theorem result_area_cases_witness:
  "reachable failureValue
   \<and> result_area failureValue
     = ErrorMessage (str ''Failed to generate greeting. Please try again later.'')
   \<and> reachable (successValue (Some (str ''Hi Ada!'')))
   \<and> result_area (successValue (Some (str ''Hi Ada!''))) = QuotedGreeting (str ''Hi Ada!'')
   \<and> reachable initialGreeting
   \<and> result_area initialGreeting
     = Placeholder (str ''Enter a name to generate a custom greeting...'')"
proof -
  have f: "reachable failureValue"
    by (rule reachable.failure [OF reachable.init])
  have s: "reachable (successValue (Some (str ''Hi Ada!'')))"
    by (rule reachable.success [OF reachable.init])
  note i = reachable.init
  from f s i result_area_cases [OF f] result_area_cases [OF s] result_area_cases [OF i]
  show ?thesis
    by (simp add: failureValue_def successValue_def initialGreeting_def truthy_def str_def)
qed

text \<open>
  C8. The button is disabled exactly when a request is loading or the input is blank:
  empty after trimming, which is to say empty or made of white space only.
\<close>

theorem button_disabled_iff:
  "(button_disabled g name \<longleftrightarrow> isLoading g \<or> trim name = [])
   \<and> (button_disabled g name \<longleftrightarrow> isLoading g \<or> (\<forall>c\<in>set name. isWhiteSpace c))"
  by (simp add: button_disabled_def truthy_def trim_empty_iff)

theorem button_disabled_iff_witness:
  "\<not> button_disabled \<lparr>text = [], isLoading = False, error = None\<rparr> (str ''Ada'')
   \<and> button_disabled \<lparr>text = [], isLoading = True, error = None\<rparr> (str ''Ada'')
   \<and> button_disabled \<lparr>text = [], isLoading = False, error = None\<rparr> (str ''  '')
   \<and> button_disabled \<lparr>text = [], isLoading = False, error = None\<rparr> []"
  using
    button_disabled_iff [of "\<lparr>text = [], isLoading = False, error = None\<rparr>" "str ''Ada''"]
    button_disabled_iff [of "\<lparr>text = [], isLoading = True, error = None\<rparr>" "str ''Ada''"]
    button_disabled_iff [of "\<lparr>text = [], isLoading = False, error = None\<rparr>" "str ''  ''"]
    button_disabled_iff [of "\<lparr>text = [], isLoading = False, error = None\<rparr>" "[]"]
  by (simp add: str_def trim_def isWhiteSpace_def)

subsection \<open>The invariant of the state\<close>

text \<open>
  C7. In every state reachable from the initial one by the three updates, \<^verbatim>\<open>isLoading\<close>
  is never true together with an error that is not \<^verbatim>\<open>null\<close>. From such a state, a
  dispatch leaves \<^verbatim>\<open>error\<close> \<^verbatim>\<open>null\<close> and \<^verbatim>\<open>isLoading\<close> true, and a resolution sets
  \<^verbatim>\<open>text\<close> and \<^verbatim>\<open>error\<close> together from the outcome alone, nothing of the earlier
  state remaining, and leaves \<^verbatim>\<open>isLoading\<close> false.
\<close>

theorem loading_excludes_error:
  fixes w :: "'e world"
  assumes "reachable g"
  shows "\<not> (isLoading g \<and> error g \<noteq> None)
    \<and> (greeting w = g \<and> generateGreeting_dispatch name w = Some w' \<longrightarrow>
         error (greeting w') = None \<and> isLoading (greeting w')
         \<and> text (greeting w') = text g \<and> reachable (greeting w'))
    \<and> (greeting w = g \<longrightarrow>
         greeting (generateGreeting_resume out w)
           = (case out of
                ThrownBeforeCall err \<Rightarrow>
                  \<lparr>text = [], isLoading = False,
                   error = Some (str ''Failed to generate greeting. Please try again later.'')\<rparr>
              | Resolved payload \<Rightarrow>
                  \<lparr>text = js_or payload (str ''Hello World! (Fallback)''),
                   isLoading = False, error = None\<rparr>
              | Rejected err \<Rightarrow>
                  \<lparr>text = [], isLoading = False,
                   error = Some (str ''Failed to generate greeting. Please try again later.'')\<rparr>)
         \<and> reachable (greeting (generateGreeting_resume out w)))"
proof -
  from reachable_loading_no_error [OF assms]
  have inv: "\<not> (isLoading g \<and> error g \<noteq> None)"
    by auto
  have disp: "error (greeting w') = None \<and> isLoading (greeting w')
      \<and> text (greeting w') = text g \<and> reachable (greeting w')"
    if "greeting w = g" "generateGreeting_dispatch name w = Some w'"
  proof -
    from that(2) have "greeting w' = loadingUpdate (greeting w)"
      by (auto simp: generateGreeting_dispatch_def effect_simps split: if_splits)
    with that(1) assms show ?thesis
      by (simp add: loadingUpdate_def [symmetric] reachable.dispatch)
        (simp add: loadingUpdate_def)
  qed
  have res: "greeting (generateGreeting_resume out w)
           = (case out of
                ThrownBeforeCall err \<Rightarrow>
                  \<lparr>text = [], isLoading = False,
                   error = Some (str ''Failed to generate greeting. Please try again later.'')\<rparr>
              | Resolved payload \<Rightarrow>
                  \<lparr>text = js_or payload (str ''Hello World! (Fallback)''),
                   isLoading = False, error = None\<rparr>
              | Rejected err \<Rightarrow>
                  \<lparr>text = [], isLoading = False,
                   error = Some (str ''Failed to generate greeting. Please try again later.'')\<rparr>)
         \<and> reachable (greeting (generateGreeting_resume out w))"
    if "greeting w = g"
  proof -
    from that assms have "reachable (greeting (generateGreeting_resume out w))"
      by (simp add: reachable_resume)
    moreover have "greeting (generateGreeting_resume out w)
           = (case out of
                ThrownBeforeCall err \<Rightarrow>
                  \<lparr>text = [], isLoading = False,
                   error = Some (str ''Failed to generate greeting. Please try again later.'')\<rparr>
              | Resolved payload \<Rightarrow>
                  \<lparr>text = js_or payload (str ''Hello World! (Fallback)''),
                   isLoading = False, error = None\<rparr>
              | Rejected err \<Rightarrow>
                  \<lparr>text = [], isLoading = False,
                   error = Some (str ''Failed to generate greeting. Please try again later.'')\<rparr>)"
      by (cases out)
        (simp_all add: effect_simps greeting_catch successValue_def failureValue_def)
    ultimately show ?thesis
      by simp
  qed
  from inv disp res show ?thesis
    by blast
qed

theorem loading_excludes_error_witness:
  "reachable (loadingUpdate failureValue)
   \<and> isLoading (loadingUpdate failureValue)
   \<and> error (loadingUpdate failureValue) = None
   \<and> error failureValue \<noteq> None"
proof -
  have r: "reachable (loadingUpdate failureValue)"
    by (rule reachable.dispatch [OF reachable.failure [OF reachable.init]])
  have l: "isLoading (loadingUpdate failureValue)"
    by (simp add: loadingUpdate_def)
  have e: "error failureValue \<noteq> None"
    by (simp add: failureValue_def)
  from l loading_excludes_error [OF r, THEN conjunct1]
  have "error (loadingUpdate failureValue) = None"
    by blast
  with r l e show ?thesis
    by simp
qed

subsection \<open>Submitting again\<close>

text \<open>
  C9, as the code has it. Submitting the same input a second time, after the first call
  has finished and with the client answering the same way, leaves the state the first
  call left, for every input. When the input is not blank, the final state is also the
  same whatever the state before the call was. For a blank input the call changes
  nothing, so the final state is the state before.
\<close>

theorem resubmission:
  "greeting (generateGreeting name out (generateGreeting name out w))
     = greeting (generateGreeting name out w)
   \<and> (trim name \<noteq> [] \<longrightarrow>
        greeting (generateGreeting name out w) = greeting (generateGreeting name out w'))
   \<and> (trim name = [] \<longrightarrow> greeting (generateGreeting name out w) = greeting w)"
proof (cases "trim name = []")
  case True
  then show ?thesis
    by (simp add: generateGreeting_blank)
next
  case False
  then show ?thesis
    by (simp add: greeting_generateGreeting_nonblank)
qed

theorem resubmission_witness:
  "trim (str ''Ada'') \<noteq> []
   \<and> greeting (generateGreeting (str ''Ada'') (Resolved (Some (str ''Hi Ada!'')))
       \<lparr>greeting = \<lparr>text = [], isLoading = False, error = None\<rparr>,
        trace = ([] :: unit event list)\<rparr>)
     = greeting (generateGreeting (str ''Ada'') (Resolved (Some (str ''Hi Ada!'')))
       \<lparr>greeting = \<lparr>text = [], isLoading = False, error = Some (str ''Failed'')\<rparr>,
        trace = ([] :: unit event list)\<rparr>)
   \<and> trim (str ''  '') = []
   \<and> greeting (generateGreeting (str ''  '') (Resolved (Some (str ''Hi Ada!'')))
       \<lparr>greeting = \<lparr>text = str ''Hey'', isLoading = False, error = None\<rparr>,
        trace = ([] :: unit event list)\<rparr>)
     = \<lparr>text = str ''Hey'', isLoading = False, error = None\<rparr>"
proof -
  have nonblank: "trim (str ''Ada'') \<noteq> []"
    by (simp add: trim_def str_def isWhiteSpace_def)
  have blank: "trim (str ''  '') = []"
    by (simp add: trim_def str_def isWhiteSpace_def)
  note same = resubmission [of "str ''Ada''" "Resolved (Some (str ''Hi Ada!''))"
      "\<lparr>greeting = \<lparr>text = [], isLoading = False, error = None\<rparr>,
        trace = ([] :: unit event list)\<rparr>"
      "\<lparr>greeting = \<lparr>text = [], isLoading = False, error = Some (str ''Failed'')\<rparr>,
        trace = []\<rparr>", THEN conjunct2, THEN conjunct1, THEN mp, OF nonblank]
  note kept = resubmission [of "str ''  ''" "Resolved (Some (str ''Hi Ada!''))"
      "\<lparr>greeting = \<lparr>text = str ''Hey'', isLoading = False, error = None\<rparr>,
        trace = ([] :: unit event list)\<rparr>", THEN conjunct2, THEN conjunct2, THEN mp, OF blank]
  from kept have kept': "greeting (generateGreeting (str ''  '') (Resolved (Some (str ''Hi Ada!'')))
       \<lparr>greeting = \<lparr>text = str ''Hey'', isLoading = False, error = None\<rparr>,
        trace = ([] :: unit event list)\<rparr>)
     = \<lparr>text = str ''Hey'', isLoading = False, error = None\<rparr>"
    by simp
  show ?thesis
    by (intro conjI nonblank blank same kept')
qed

text \<open>
  The final state is not independent of the earlier one for every input: with a blank
  input, starting from the initial state and from a state holding a greeting, the
  first and the second submission both end in the state they started from, and the two
  differ.
\<close>

theorem blank_resubmission_keeps_prior_state:
  "greeting (generateGreeting (str ''  '') (Resolved (Some (str ''Hi'')))
      (generateGreeting (str ''  '') (Resolved (Some (str ''Hi'')))
        \<lparr>greeting = \<lparr>text = [], isLoading = False, error = None\<rparr>,
         trace = ([] :: unit event list)\<rparr>))
     = \<lparr>text = [], isLoading = False, error = None\<rparr>
   \<and> greeting (generateGreeting (str ''  '') (Resolved (Some (str ''Hi'')))
      (generateGreeting (str ''  '') (Resolved (Some (str ''Hi'')))
        \<lparr>greeting = \<lparr>text = str ''Hey'', isLoading = False, error = None\<rparr>,
         trace = ([] :: unit event list)\<rparr>))
     = \<lparr>text = str ''Hey'', isLoading = False, error = None\<rparr>
   \<and> \<lparr>text = [], isLoading = False, error = None\<rparr>
     \<noteq> \<lparr>text = str ''Hey'', isLoading = False, error = None\<rparr>"
proof -
  have blank: "trim (str ''  '') = []"
    by (simp add: trim_def str_def isWhiteSpace_def)
  show ?thesis
    by (simp add: generateGreeting_blank [OF blank]) (simp add: str_def)
qed

end
